theory Spec2Isabelle
  imports Main "HOL-Library.Word"
begin

section \<open>The query input form of the deep-search frontend\<close>

text \<open>
  This theory embeds the logic of \<^verbatim>\<open>src/frontend/src/components/InputForm.tsx\<close>:
  the four pieces of component state, the fixed provider/model table, the three event
  handlers and the derived \<^verbatim>\<open>isSubmitDisabled\<close> flag. Markup and styling are left out;
  the wiring of handlers to controls is kept, since it decides which handler an event
  reaches.
\<close>

subsection \<open>JavaScript strings\<close>

text \<open>
  A JavaScript string is a sequence of UTF-16 code units, and \<^verbatim>\<open>String.prototype.trim\<close>
  works on code units, so strings are lists of 16-bit words. \<open>js\<close> reads an ASCII
  literal as such a string.
\<close>

type_synonym jsstring = "16 word list"

definition js :: "string \<Rightarrow> jsstring" where
  "js s = map of_char s"

text \<open>
  The code units that \<^verbatim>\<open>trim\<close> strips: ECMAScript's WhiteSpace (TAB, VT, FF, SP, NBSP,
  ZWNBSP and the Unicode space separators) and LineTerminator (LF, CR, LS, PS). All of
  them are single code units.
\<close>

definition white_space :: "16 word list" where
  "white_space =
     [0x0009, 0x000A, 0x000B, 0x000C, 0x000D, 0x0020, 0x00A0, 0x1680,
      0x2000, 0x2001, 0x2002, 0x2003, 0x2004, 0x2005, 0x2006, 0x2007,
      0x2008, 0x2009, 0x200A, 0x2028, 0x2029, 0x202F, 0x205F, 0x3000, 0xFEFF]"

definition isWhiteSpace :: "16 word \<Rightarrow> bool" where
  "isWhiteSpace c \<longleftrightarrow> c \<in> set white_space"

definition trim :: "jsstring \<Rightarrow> jsstring" where
  "trim s = rev (dropWhile isWhiteSpace (rev (dropWhile isWhiteSpace s)))"

subsection \<open>Props, state and the model table\<close>

text \<open>
  \<^verbatim>\<open>InputFormProps\<close> (lines 14-19). The two callbacks \<^verbatim>\<open>onSubmit\<close> and \<^verbatim>\<open>onCancel\<close> are
  supplied by the caller; a call of one of them is recorded as an effect (below).
\<close>

record InputFormProps =
  isLoading :: bool
  hasHistory :: bool

text \<open>The four \<^verbatim>\<open>useState\<close> cells (lines 27-30).\<close>

record FormState =
  internalInputValue :: jsstring
  effort :: jsstring
  provider :: jsstring
  model :: jsstring

definition initialState :: FormState where
  "initialState =
     \<lparr>internalInputValue = js '''',
      effort = js ''medium'',
      provider = js ''gemini'',
      model = js ''gemini-2.5-flash-preview-04-17''\<rparr>"

text \<open>
  One entry of the table (lines 35-49). The icons are emoji: the high-voltage sign is
  one code unit, the brain and the rocket are surrogate pairs.
\<close>

record ModelOption =
  option_value :: jsstring
  label :: jsstring
  icon :: jsstring

definition icon_zap :: jsstring where "icon_zap = [0x26A1]"
definition icon_brain :: jsstring where "icon_brain = [0xD83E, 0xDDE0]"
definition icon_rocket :: jsstring where "icon_rocket = [0xD83D, 0xDE80]"

text \<open>
  \<^verbatim>\<open>modelOptions\<close> (lines 33-51): an object literal, kept as an association list in
  the order of the source.
\<close>

definition modelOptions :: "(jsstring \<times> ModelOption list) list" where
  "modelOptions =
     [(js ''gemini'',
        [\<lparr>option_value = js ''gemini-2.0-flash'', label = js ''2.0 Flash'', icon = icon_zap\<rparr>,
         \<lparr>option_value = js ''gemini-2.5-flash-preview-04-17'', label = js ''2.5 Flash'', icon = icon_zap\<rparr>,
         \<lparr>option_value = js ''gemini-2.5-pro-preview-05-06'', label = js ''2.5 Pro'', icon = icon_brain\<rparr>]),
      (js ''openai'',
        [\<lparr>option_value = js ''gpt-4o-mini'', label = js ''GPT-4o Mini'', icon = icon_zap\<rparr>,
         \<lparr>option_value = js ''gpt-4o'', label = js ''GPT-4o'', icon = icon_brain\<rparr>,
         \<lparr>option_value = js ''gpt-4-turbo'', label = js ''GPT-4 Turbo'', icon = icon_rocket\<rparr>]),
      (js ''qwen'',
        [\<lparr>option_value = js ''qwen-plus'', label = js ''Qwen Plus'', icon = icon_zap\<rparr>,
         \<lparr>option_value = js ''qwen-max'', label = js ''Qwen Max'', icon = icon_brain\<rparr>]),
      (js ''grok'',
        [\<lparr>option_value = js ''grok-beta'', label = js ''Grok Beta'', icon = icon_rocket\<rparr>])]"

text \<open>
  Reading \<^verbatim>\<open>modelOptions[k]\<close>. The type assertion \<^verbatim>\<open>as keyof typeof modelOptions\<close> is
  erased at run time, so \<open>k\<close> is any string. An own property gives its array. Any
  other name is looked up along the prototype chain: the members of
  \<^verbatim>\<open>Object.prototype\<close> are found there (none of them is an array, and none has a
  property \<^verbatim>\<open>0\<close>), every other name gives \<^verbatim>\<open>undefined\<close>.
\<close>

datatype property = Undefined | Models "ModelOption list" | PrototypeMember

definition object_prototype_names :: "jsstring list" where
  "object_prototype_names =
     map js [''constructor'', ''__proto__'', ''hasOwnProperty'', ''isPrototypeOf'',
             ''propertyIsEnumerable'', ''toLocaleString'', ''toString'', ''valueOf'',
             ''__defineGetter__'', ''__defineSetter__'', ''__lookupGetter__'',
             ''__lookupSetter__'']"

definition get_modelOptions :: "jsstring \<Rightarrow> property" where
  "get_modelOptions k =
     (case map_of modelOptions k of
        Some ms \<Rightarrow> Models ms
      | None \<Rightarrow> if k \<in> set object_prototype_names then PrototypeMember else Undefined)"

datatype error = TypeError

text \<open>
  \<^verbatim>\<open>v[0]\<close>: reading a property of \<^verbatim>\<open>undefined\<close> throws; an array gives its first
  element, or \<^verbatim>\<open>undefined\<close> (here \<open>None\<close>) when it is empty; a member of
  \<^verbatim>\<open>Object.prototype\<close> has no property \<^verbatim>\<open>0\<close>.
\<close>

definition element0 :: "property \<Rightarrow> error + ModelOption option" where
  "element0 v =
     (case v of
        Undefined \<Rightarrow> Inl TypeError
      | Models ms \<Rightarrow> Inr (case ms of [] \<Rightarrow> None | m # _ \<Rightarrow> Some m)
      | PrototypeMember \<Rightarrow> Inr None)"

subsection \<open>Effects and handler runs\<close>

text \<open>
  What a handler does besides computing: it calls \<^verbatim>\<open>preventDefault\<close> on its event,
  calls a state setter, or calls a callback of the props. A run of a handler is the
  sequence of these calls, and the error it threw, if any.
\<close>

datatype effect =
    PreventDefault
  | SetInternalInputValue jsstring
  | SetEffort jsstring
  | SetProvider jsstring
  | SetModel jsstring
  | OnSubmit jsstring jsstring jsstring jsstring
  | OnCancel

record run =
  trace :: "effect list"
  raised :: "error option"

definition returns :: "effect list \<Rightarrow> run" where
  "returns es = \<lparr>trace = es, raised = None\<rparr>"

definition throws :: "effect list \<Rightarrow> error \<Rightarrow> run" where
  "throws es e = \<lparr>trace = es, raised = Some e\<rparr>"

subsection \<open>The handlers\<close>

text \<open>\<^verbatim>\<open>handleProviderChange\<close> (lines 54-58).\<close>

definition handleProviderChange :: "jsstring \<Rightarrow> run" where
  "handleProviderChange newProvider =
     (case element0 (get_modelOptions newProvider) of
        Inl e \<Rightarrow> throws [SetProvider newProvider] e
      | Inr None \<Rightarrow> throws [SetProvider newProvider] TypeError
      | Inr (Some firstModel) \<Rightarrow>
          returns [SetProvider newProvider, SetModel (option_value firstModel)])"

text \<open>
  \<^verbatim>\<open>handleInternalSubmit\<close> (lines 60-65). The event is optional; the empty string is
  the only falsy string, so \<^verbatim>\<open>!internalInputValue.trim()\<close> holds exactly when the
  trimmed text is empty.
\<close>

datatype FormEvent = FormEvent

definition handleInternalSubmit :: "FormState \<Rightarrow> FormEvent option \<Rightarrow> run" where
  "handleInternalSubmit st e =
     (let pd = (case e of Some _ \<Rightarrow> [PreventDefault] | None \<Rightarrow> []) in
      if trim (internalInputValue st) = [] then returns pd
      else returns (pd @ [OnSubmit (internalInputValue st) (effort st) (provider st) (model st),
                          SetInternalInputValue (js '''')]))"

text \<open>\<^verbatim>\<open>handleInternalKeyDown\<close> (lines 67-74), on the fields of the event it reads
  and the other modifier flags a keyboard event carries.\<close>

record KeyboardEvent =
  key :: jsstring
  shiftKey :: bool
  ctrlKey :: bool
  altKey :: bool
  metaKey :: bool

definition handleInternalKeyDown :: "FormState \<Rightarrow> KeyboardEvent \<Rightarrow> run" where
  "handleInternalKeyDown st e =
     (if key e = js ''Enter'' \<and> \<not> shiftKey e
      then (let r = handleInternalSubmit st None in r\<lparr>trace := PreventDefault # trace r\<rparr>)
      else returns [])"

text \<open>\<^verbatim>\<open>isSubmitDisabled\<close> (line 76).\<close>

definition isSubmitDisabled :: "InputFormProps \<Rightarrow> FormState \<Rightarrow> bool" where
  "isSubmitDisabled props st \<longleftrightarrow> trim (internalInputValue st) = [] \<or> isLoading props"

subsection \<open>The component: controls, events and state transitions\<close>

text \<open>
  The control next to the text area (lines 98-122): the cancel button while loading,
  otherwise the submit button with its \<^verbatim>\<open>disabled\<close> attribute.
\<close>

datatype control = CancelButton | SubmitButton bool

definition primary_control :: "InputFormProps \<Rightarrow> FormState \<Rightarrow> control" where
  "primary_control props st =
     (if isLoading props then CancelButton else SubmitButton (isSubmitDisabled props st))"

text \<open>
  The events the markup listens to, and the handler each one reaches: \<^verbatim>\<open>onChange\<close>
  and \<^verbatim>\<open>onKeyDown\<close> of the text area (lines 90-91), \<^verbatim>\<open>onSubmit\<close> of the form
  (line 80), \<^verbatim>\<open>onClick\<close> of the cancel button (line 104), \<^verbatim>\<open>onValueChange\<close> of the
  three selects (lines 132, 163, 200). The new-search button (line 225) reloads the
  page, which ends this instance of the component, so it is not an event of the model.
\<close>

datatype ui_event =
    TextareaChange jsstring
  | TextareaKeyDown KeyboardEvent
  | FormSubmit
  | CancelClick
  | EffortChange jsstring
  | ProviderChange jsstring
  | ModelChange jsstring

fun dispatch :: "FormState \<Rightarrow> ui_event \<Rightarrow> run" where
  "dispatch st (TextareaChange v) = returns [SetInternalInputValue v]"
| "dispatch st (TextareaKeyDown e) = handleInternalKeyDown st e"
| "dispatch st FormSubmit = handleInternalSubmit st (Some FormEvent)"
| "dispatch st CancelClick = returns [OnCancel]"
| "dispatch st (EffortChange v) = returns [SetEffort v]"
| "dispatch st (ProviderChange v) = handleProviderChange v"
| "dispatch st (ModelChange v) = returns [SetModel v]"

text \<open>
  The state setters called during one handler run are applied together, in the order
  of the calls, before the component renders again; the other effects leave the state
  alone.
\<close>

fun apply_effect :: "effect \<Rightarrow> FormState \<Rightarrow> FormState" where
  "apply_effect (SetInternalInputValue v) st = st\<lparr>internalInputValue := v\<rparr>"
| "apply_effect (SetEffort v) st = st\<lparr>effort := v\<rparr>"
| "apply_effect (SetProvider v) st = st\<lparr>provider := v\<rparr>"
| "apply_effect (SetModel v) st = st\<lparr>model := v\<rparr>"
| "apply_effect _ st = st"

definition commit :: "FormState \<Rightarrow> effect list \<Rightarrow> FormState" where
  "commit st es = fold apply_effect es st"

text \<open>
  One event: the handler runs on the current state; an error it throws is the result,
  otherwise the state after its setter calls. The setter calls made before a throw stay
  in the trace of the run; what is left of the component after an uncaught error is
  not modelled.
\<close>

definition step :: "FormState \<Rightarrow> ui_event \<Rightarrow> error + FormState" where
  "step st ev =
     (let r = dispatch st ev in
      case raised r of Some e \<Rightarrow> Inl e | None \<Rightarrow> Inr (commit st (trace r)))"

fun steps :: "FormState \<Rightarrow> ui_event list \<Rightarrow> error + FormState" where
  "steps st [] = Inr st"
| "steps st (ev # evs) = (case step st ev of Inl e \<Rightarrow> Inl e | Inr st' \<Rightarrow> steps st' evs)"

text \<open>The calls of \<^verbatim>\<open>onSubmit\<close> in a trace.\<close>

fun is_OnSubmit :: "effect \<Rightarrow> bool" where
  "is_OnSubmit (OnSubmit _ _ _ _) = True"
| "is_OnSubmit _ = False"

definition onSubmit_calls :: "run \<Rightarrow> effect list" where
  "onSubmit_calls r = filter is_OnSubmit (trace r)"

subsection \<open>What the rendered controls can produce\<close>

text \<open>
  The model ids listed under a provider, and the values the selects offer: the three
  effort items (lines 137-154), the four provider items (lines 168-191), and for the
  model select the entries of \<^verbatim>\<open>modelOptions[provider]\<close> (lines 205-216).
\<close>

definition model_ids :: "jsstring \<Rightarrow> jsstring list" where
  "model_ids p =
     (case map_of modelOptions p of None \<Rightarrow> [] | Some ms \<Rightarrow> map option_value ms)"

definition effort_items :: "jsstring list" where
  "effort_items = [js ''low'', js ''medium'', js ''high'']"

definition provider_items :: "jsstring list" where
  "provider_items = [js ''gemini'', js ''openai'', js ''qwen'', js ''grok'']"

text \<open>
  An event is offered when a control rendered for the given props and state can fire
  it: a select fires only with the value of one of its items, the form is submitted
  only through an enabled submit button, and the cancel button exists only while
  loading. The text area is always there and takes any text and any key.
\<close>

fun offered :: "InputFormProps \<Rightarrow> FormState \<Rightarrow> ui_event \<Rightarrow> bool" where
  "offered props st (TextareaChange v) = True"
| "offered props st (TextareaKeyDown e) = True"
| "offered props st FormSubmit = (primary_control props st = SubmitButton False)"
| "offered props st CancelClick = (primary_control props st = CancelButton)"
| "offered props st (EffortChange v) = (v \<in> set effort_items)"
| "offered props st (ProviderChange v) = (v \<in> set provider_items)"
| "offered props st (ModelChange v) = (v \<in> set (model_ids (provider st)))"

text \<open>
  A session: the caller's props may differ from event to event. \<open>all_offered\<close> checks
  each event against the controls rendered just before it, up to the first event whose
  handler throws.
\<close>

fun all_offered :: "FormState \<Rightarrow> (InputFormProps \<times> ui_event) list \<Rightarrow> bool" where
  "all_offered st [] = True"
| "all_offered st ((props, ev) # rest) =
     (offered props st ev \<and>
      (case step st ev of Inl e \<Rightarrow> True | Inr st' \<Rightarrow> all_offered st' rest))"

text \<open>The pair of provider and model is consistent when the model is listed under the
  provider.\<close>

definition consistent :: "FormState \<Rightarrow> bool" where
  "consistent st \<longleftrightarrow> model st \<in> set (model_ids (provider st))"

text \<open>
  The derived value of the specification, in its words: the draft has a trimmed length
  above zero and no request is loading.
\<close>

definition canSubmit :: "InputFormProps \<Rightarrow> FormState \<Rightarrow> bool" where
  "canSubmit props st \<longleftrightarrow> length (trim (internalInputValue st)) > 0 \<and> \<not> isLoading props"

subsection \<open>The text field's own reaction to a key\<close>

text \<open>
  Modelled from the spec: the reaction of the text field itself to the accelerator key,
  which is not under \<^verbatim>\<open>src\<close> (the \<^verbatim>\<open>Textarea\<close> component imported on line 4 and the
  editing it inherits from the platform). The spec's words: the modifier-held variant
  "must insert a literal newline instead of submitting" and "leaves an inserted line
  break in draftText". Accordingly an Enter key whose default action is not suppressed
  puts one line feed into the text at the caret; for the other keys nothing is said
  here, their edits arrive as change events.
\<close>

definition default_action :: "KeyboardEvent \<Rightarrow> nat \<Rightarrow> jsstring \<Rightarrow> jsstring option" where
  "default_action e caret v =
     (if key e = js ''Enter'' then Some (take caret v @ [0x000A] @ drop caret v) else None)"

text \<open>
  A key press on the text area, with the caret at a given position: the key handler
  runs first (\<^verbatim>\<open>onKeyDown\<close>, line 91); unless it has called \<^verbatim>\<open>preventDefault\<close>, the
  field's own reaction follows, and the new text comes back through \<^verbatim>\<open>onChange\<close>
  (line 90).
\<close>

definition press_key :: "FormState \<Rightarrow> KeyboardEvent \<Rightarrow> nat \<Rightarrow> error + FormState" where
  "press_key st e caret =
     (case step st (TextareaKeyDown e) of
        Inl err \<Rightarrow> Inl err
      | Inr st' \<Rightarrow>
          if PreventDefault \<in> set (trace (handleInternalKeyDown st e)) then Inr st'
          else (case default_action e caret (internalInputValue st') of
                  None \<Rightarrow> Inr st'
                | Some v \<Rightarrow> step st' (TextareaChange v)))"

section \<open>Properties\<close>

subsection \<open>Auxiliary facts\<close>

lemma js_empty: "js '''' = []"
  by (simp add: js_def)

lemma modelOptions_keys:
  "map fst modelOptions = [js ''gemini'', js ''openai'', js ''qwen'', js ''grok'']"
  by (simp add: modelOptions_def)

lemma modelOptions_nonempty: "(k, ms) \<in> set modelOptions \<Longrightarrow> ms \<noteq> []"
  by (auto simp: modelOptions_def)

lemma handleProviderChange_own:
  "map_of modelOptions p = Some (m # rest) \<Longrightarrow>
   handleProviderChange p = returns [SetProvider p, SetModel (option_value m)]"
  by (simp add: handleProviderChange_def get_modelOptions_def element0_def)

lemma handleProviderChange_missing:
  "map_of modelOptions p = None \<Longrightarrow> handleProviderChange p = throws [SetProvider p] TypeError"
  by (simp add: handleProviderChange_def get_modelOptions_def element0_def)

lemma step_returns: "dispatch st ev = returns es \<Longrightarrow> step st ev = Inr (commit st es)"
  by (simp add: step_def returns_def)

lemma step_throws: "dispatch st ev = throws es e \<Longrightarrow> step st ev = Inl e"
  by (simp add: step_def throws_def)

lemma provider_change_step:
  assumes "map_of modelOptions p = Some ms"
  shows "ms \<noteq> [] \<and>
         handleProviderChange p = returns [SetProvider p, SetModel (option_value (ms ! 0))] \<and>
         step st (ProviderChange p) = Inr (st\<lparr>provider := p, model := option_value (ms ! 0)\<rparr>)"
proof -
  from assms have "(p, ms) \<in> set modelOptions"
    by (rule map_of_SomeD)
  then have ne: "ms \<noteq> []"
    by (rule modelOptions_nonempty)
  then obtain m rest where ms: "ms = m # rest"
    by (cases ms) auto
  with assms have run: "handleProviderChange p = returns [SetProvider p, SetModel (option_value m)]"
    by (simp add: handleProviderChange_own)
  then have "step st (ProviderChange p) = Inr (commit st [SetProvider p, SetModel (option_value m)])"
    by (simp add: step_returns)
  then have "step st (ProviderChange p) = Inr (st\<lparr>provider := p, model := option_value m\<rparr>)"
    by (simp add: commit_def)
  with ne run ms show ?thesis
    by simp
qed

lemma first_model_listed:
  "map_of modelOptions p = Some ms \<Longrightarrow> ms \<noteq> [] \<Longrightarrow> option_value (ms ! 0) \<in> set (model_ids p)"
  by (cases ms) (simp_all add: model_ids_def)

text \<open>The run of \<^verbatim>\<open>handleInternalSubmit\<close> in its two cases, and the state after it.\<close>

lemma submit_empty:
  "trim (internalInputValue st) = [] \<Longrightarrow>
   handleInternalSubmit st e = returns (case e of Some _ \<Rightarrow> [PreventDefault] | None \<Rightarrow> [])"
  by (simp add: handleInternalSubmit_def)

lemma submit_nonempty:
  "trim (internalInputValue st) \<noteq> [] \<Longrightarrow>
   handleInternalSubmit st e =
     returns ((case e of Some _ \<Rightarrow> [PreventDefault] | None \<Rightarrow> []) @
              [OnSubmit (internalInputValue st) (effort st) (provider st) (model st),
               SetInternalInputValue []])"
  by (simp add: handleInternalSubmit_def js_empty)

lemma commit_submit_empty:
  "trim (internalInputValue st) = [] \<Longrightarrow> commit st (trace (handleInternalSubmit st e)) = st"
  by (cases e) (simp_all add: submit_empty returns_def commit_def)

lemma commit_submit_nonempty:
  "trim (internalInputValue st) \<noteq> [] \<Longrightarrow>
   commit st (trace (handleInternalSubmit st e)) = st\<lparr>internalInputValue := []\<rparr>"
  by (cases e) (simp_all add: submit_nonempty returns_def commit_def)

lemma submit_never_throws: "raised (handleInternalSubmit st e) = None"
  by (simp add: handleInternalSubmit_def returns_def Let_def)

lemma keydown_enter:
  "key e = js ''Enter'' \<Longrightarrow> \<not> shiftKey e \<Longrightarrow>
   handleInternalKeyDown st e = handleInternalSubmit st (Some FormEvent)"
  by (simp add: handleInternalKeyDown_def handleInternalSubmit_def returns_def Let_def)

lemma keydown_other:
  "\<not> (key e = js ''Enter'' \<and> \<not> shiftKey e) \<Longrightarrow> handleInternalKeyDown st e = returns []"
  by (auto simp add: handleInternalKeyDown_def)

lemma step_submit:
  "step st FormSubmit =
     Inr (if trim (internalInputValue st) = [] then st else st\<lparr>internalInputValue := []\<rparr>)"
  by (simp add: step_def submit_never_throws commit_submit_empty commit_submit_nonempty)

lemma step_keydown:
  "step st (TextareaKeyDown e) =
     (if key e = js ''Enter'' \<and> \<not> shiftKey e then step st FormSubmit else Inr st)"
proof (cases "key e = js ''Enter'' \<and> \<not> shiftKey e")
  case True
  then show ?thesis
    by (simp add: step_def keydown_enter)
next
  case False
  from keydown_other [OF False] False show ?thesis
    by (auto simp add: step_def returns_def commit_def)
qed

lemma trim_examples:
  "trim (js '''') = []" "trim (js '' '') = []" "trim [0x000A, 0x0009] = []"
  "trim (js ''  hello  '') = js ''hello''"
  by (simp_all add: trim_def js_def isWhiteSpace_def white_space_def)

text \<open>Every offered event keeps a consistent state consistent, and its handler returns.\<close>

lemma offered_step_consistent:
  assumes "consistent st" and "offered props st ev"
  shows "\<exists>st'. step st ev = Inr st' \<and> consistent st'"
proof (cases ev)
  case (TextareaChange v)
  with assms show ?thesis
    by (simp add: step_def returns_def commit_def consistent_def)
next
  case (TextareaKeyDown e)
  with assms show ?thesis
    by (simp add: step_keydown step_submit consistent_def)
next
  case FormSubmit
  with assms show ?thesis
    by (simp add: step_submit consistent_def)
next
  case CancelClick
  with assms show ?thesis
    by (simp add: step_def returns_def commit_def)
next
  case (EffortChange v)
  with assms show ?thesis
    by (simp add: step_def returns_def commit_def consistent_def)
next
  case (ProviderChange v)
  with assms have "v \<in> set (map fst modelOptions)"
    by (simp add: provider_items_def modelOptions_keys)
  then obtain ms where ms: "map_of modelOptions v = Some ms"
    by (metis map_of_eq_None_iff not_Some_eq image_set)
  from provider_change_step [OF ms, of st] first_model_listed [OF ms] ProviderChange
  show ?thesis
    by (simp add: consistent_def)
next
  case (ModelChange v)
  with assms show ?thesis
    by (simp add: step_def returns_def commit_def consistent_def)
qed

lemma initialState_consistent: "consistent initialState"
  by (simp add: consistent_def initialState_def model_ids_def modelOptions_def js_def)

lemma sessions_consistent:
  "consistent st \<Longrightarrow> all_offered st sess \<Longrightarrow>
   (case steps st (map snd sess) of Inl e \<Rightarrow> False | Inr st' \<Rightarrow> consistent st')"
proof (induction sess arbitrary: st)
  case Nil
  then show ?case by simp
next
  case (Cons pe sess)
  obtain props ev where pe: "pe = (props, ev)"
    by (cases pe)
  with Cons.prems have off: "offered props st ev"
    by simp
  with Cons.prems(1) obtain st' where st': "step st ev = Inr st'" "consistent st'"
    using offered_step_consistent by blast
  with Cons.prems pe have "all_offered st' sess"
    by simp
  with st' have "case steps st' (map snd sess) of Inl e \<Rightarrow> False | Inr st'' \<Rightarrow> consistent st''"
    by (simp add: Cons.IH)
  with st' pe show ?case
    by simp
qed

text \<open>The calls of \<^verbatim>\<open>onSubmit\<close> and the state after a submission do not depend on
  whether the submit handler was given an event.\<close>

lemma submit_calls:
  "onSubmit_calls (handleInternalSubmit st e) =
     (if trim (internalInputValue st) = [] then []
      else [OnSubmit (internalInputValue st) (effort st) (provider st) (model st)])"
  by (cases e) (simp_all add: handleInternalSubmit_def onSubmit_calls_def returns_def)

lemma commit_submit:
  "commit st (trace (handleInternalSubmit st e)) =
     (if trim (internalInputValue st) = [] then st else st\<lparr>internalInputValue := []\<rparr>)"
  by (simp add: commit_submit_empty commit_submit_nonempty)

lemma keydown_enter_run:
  "key e = js ''Enter'' \<Longrightarrow> \<not> shiftKey e \<Longrightarrow>
   trace (handleInternalKeyDown st e) = PreventDefault # trace (handleInternalSubmit st None) \<and>
   raised (handleInternalKeyDown st e) = raised (handleInternalSubmit st None)"
  by (simp add: handleInternalKeyDown_def Let_def)

lemma press_key_prevented:
  assumes "key e = js ''Enter''" and "\<not> shiftKey e"
  shows "press_key st e caret = step st FormSubmit"
proof -
  from assms have "PreventDefault \<in> set (trace (handleInternalKeyDown st e))"
    by (simp add: keydown_enter_run)
  moreover from assms have "step st (TextareaKeyDown e) = step st FormSubmit"
    by (simp add: step_keydown)
  ultimately show ?thesis
    by (simp add: press_key_def step_submit)
qed

lemma press_key_shift_enter:
  assumes "key e = js ''Enter''" and "shiftKey e"
  shows "press_key st e caret =
           Inr (st\<lparr>internalInputValue :=
                      take caret (internalInputValue st) @ [0x000A] @ drop caret (internalInputValue st)\<rparr>)"
proof -
  from assms have run: "handleInternalKeyDown st e = returns []"
    by (simp add: keydown_other)
  from assms have st: "step st (TextareaKeyDown e) = Inr st"
    by (simp add: step_keydown)
  have "step st (TextareaChange v) = Inr (st\<lparr>internalInputValue := v\<rparr>)" for v
    by (simp add: step_def returns_def commit_def)
  with run st assms show ?thesis
    by (simp add: press_key_def default_action_def returns_def)
qed
subsection \<open>Switching the provider\<close>

text \<open>
  Claim C1. For a provider \<open>p\<close> that is a key of the table, with model sequence \<open>ms\<close>,
  the handler of the provider select calls both setters in one run, the provider
  first and then the model with the id of the first entry of \<open>ms\<close>. The state after
  that one event has provider \<open>p\<close> and this model, which is listed under \<open>p\<close>; no state
  with the new provider and the old model lies in between.
\<close>

theorem selectProvider_sets_first_model:
  assumes "map_of modelOptions p = Some ms"
  shows "ms \<noteq> [] \<and>
         handleProviderChange p = returns [SetProvider p, SetModel (option_value (ms ! 0))] \<and>
         step st (ProviderChange p) = Inr (st\<lparr>provider := p, model := option_value (ms ! 0)\<rparr>) \<and>
         option_value (ms ! 0) \<in> set (model_ids p) \<and>
         consistent (st\<lparr>provider := p, model := option_value (ms ! 0)\<rparr>)"
proof -
  note run = provider_change_step [OF assms, of st]
  then have "option_value (ms ! 0) \<in> set (model_ids p)"
    using assms by (simp add: first_model_listed)
  with run show ?thesis
    by (simp add: consistent_def)
qed

text \<open>Switching from the initial state to \<^verbatim>\<open>openai\<close> selects \<^verbatim>\<open>gpt-4o-mini\<close>.\<close>

theorem selectProvider_sets_first_model_witness:
  "map_of modelOptions (js ''openai'') =
     Some [\<lparr>option_value = js ''gpt-4o-mini'', label = js ''GPT-4o Mini'', icon = icon_zap\<rparr>,
           \<lparr>option_value = js ''gpt-4o'', label = js ''GPT-4o'', icon = icon_brain\<rparr>,
           \<lparr>option_value = js ''gpt-4-turbo'', label = js ''GPT-4 Turbo'', icon = icon_rocket\<rparr>] \<and>
   step initialState (ProviderChange (js ''openai'')) =
     Inr (initialState\<lparr>provider := js ''openai'', model := js ''gpt-4o-mini''\<rparr>) \<and>
   consistent (initialState\<lparr>provider := js ''openai'', model := js ''gpt-4o-mini''\<rparr>)"
proof -
  have h: "map_of modelOptions (js ''openai'') =
     Some [\<lparr>option_value = js ''gpt-4o-mini'', label = js ''GPT-4o Mini'', icon = icon_zap\<rparr>,
           \<lparr>option_value = js ''gpt-4o'', label = js ''GPT-4o'', icon = icon_brain\<rparr>,
           \<lparr>option_value = js ''gpt-4-turbo'', label = js ''GPT-4 Turbo'', icon = icon_rocket\<rparr>]"
    by (simp add: modelOptions_def js_def)
  from selectProvider_sets_first_model [OF h, of initialState] h show ?thesis
    by simp
qed

text \<open>
  Claim C10. The handler of the provider select returns normally exactly for the four
  keys of the table. For any other string the table has no entry, the handler throws
  a TypeError after its call of the provider setter, and the event ends in that error.
\<close>

theorem selectProvider_total_only_on_keys:
  "(raised (handleProviderChange p) = None) =
     (p \<in> set [js ''gemini'', js ''openai'', js ''qwen'', js ''grok'']) \<and>
   (p \<notin> set [js ''gemini'', js ''openai'', js ''qwen'', js ''grok''] \<longrightarrow>
      map_of modelOptions p = None \<and>
      handleProviderChange p = throws [SetProvider p] TypeError \<and>
      step st (ProviderChange p) = Inl TypeError)"
proof (cases "p \<in> set (map fst modelOptions)")
  case True
  then obtain ms where "map_of modelOptions p = Some ms"
    by (metis map_of_eq_None_iff not_Some_eq image_set)
  then have "raised (handleProviderChange p) = None"
    by (simp add: provider_change_step returns_def)
  with True show ?thesis
    by (simp add: modelOptions_keys)
next
  case False
  then have none: "map_of modelOptions p = None"
    by (simp add: map_of_eq_None_iff)
  then have "handleProviderChange p = throws [SetProvider p] TypeError"
    by (rule handleProviderChange_missing)
  with none False show ?thesis
    by (simp add: step_throws throws_def modelOptions_keys)
qed

text \<open>A provider id that is not in the table, and one that names a member of
  \<^verbatim>\<open>Object.prototype\<close>: both end in the TypeError.\<close>

theorem selectProvider_total_only_on_keys_witness:
  "js ''mistral'' \<notin> set [js ''gemini'', js ''openai'', js ''qwen'', js ''grok''] \<and>
   map_of modelOptions (js ''mistral'') = None \<and>
   step initialState (ProviderChange (js ''mistral'')) = Inl TypeError \<and>
   js ''toString'' \<notin> set [js ''gemini'', js ''openai'', js ''qwen'', js ''grok''] \<and>
   get_modelOptions (js ''toString'') = PrototypeMember \<and>
   step initialState (ProviderChange (js ''toString'')) = Inl TypeError"
proof -
  have a: "js ''mistral'' \<notin> set [js ''gemini'', js ''openai'', js ''qwen'', js ''grok'']"
    by (simp add: js_def)
  have b: "js ''toString'' \<notin> set [js ''gemini'', js ''openai'', js ''qwen'', js ''grok'']"
    by (simp add: js_def)
  have c: "get_modelOptions (js ''toString'') = PrototypeMember"
    by (simp add: get_modelOptions_def modelOptions_def object_prototype_names_def js_def)
  from selectProvider_total_only_on_keys [of "js ''mistral''" initialState]
       selectProvider_total_only_on_keys [of "js ''toString''" initialState] a b c
  show ?thesis
    by simp
qed

subsection \<open>The initial state and the invariant\<close>

text \<open>
  Claim C7. On mount the effort is \<^verbatim>\<open>medium\<close>, the provider is \<^verbatim>\<open>gemini\<close> and the
  draft is empty; the model is \<^verbatim>\<open>gemini-2.5-flash-preview-04-17\<close>, which is the second
  entry listed under \<^verbatim>\<open>gemini\<close>, so the initial pair is consistent.
\<close>

theorem initialState_values:
  "internalInputValue initialState = [] \<and>
   effort initialState = js ''medium'' \<and>
   provider initialState = js ''gemini'' \<and>
   model initialState = js ''gemini-2.5-flash-preview-04-17'' \<and>
   model_ids (js ''gemini'') =
     [js ''gemini-2.0-flash'', js ''gemini-2.5-flash-preview-04-17'',
      js ''gemini-2.5-pro-preview-05-06''] \<and>
   consistent initialState"
  by (simp add: initialState_consistent)
     (simp add: initialState_def model_ids_def modelOptions_def js_empty)

text \<open>The initial model is not the first entry listed under the initial provider.\<close>

theorem initialState_model_not_first:
  "model_ids (provider initialState) ! 0 = js ''gemini-2.0-flash'' \<and>
   model initialState \<noteq> model_ids (provider initialState) ! 0"
  by (simp add: initialState_def model_ids_def modelOptions_def js_def)

text \<open>
  Claim C2. In every session that starts in the initial state and consists of events
  the rendered controls offer (any text and any key in the text area, a submit through
  the enabled button, a cancel while loading, an effort and a provider from the items
  of their selects, and a model from the entries listed under the current provider),
  no handler throws and the model of the final state is listed under its provider.
\<close>

theorem offered_sessions_consistent:
  assumes "all_offered initialState sess"
  shows "case steps initialState (map snd sess) of
           Inl e \<Rightarrow> False
         | Inr st' \<Rightarrow> consistent st'"
  using initialState_consistent assms by (rule sessions_consistent)

text \<open>A session: switch to \<^verbatim>\<open>openai\<close>, pick \<^verbatim>\<open>gpt-4o\<close>, type a query, submit it with
  the button, cancel while loading.\<close>

theorem offered_sessions_consistent_witness:
  "all_offered initialState
     [(\<lparr>isLoading = False, hasHistory = False\<rparr>, ProviderChange (js ''openai'')),
      (\<lparr>isLoading = False, hasHistory = False\<rparr>, ModelChange (js ''gpt-4o'')),
      (\<lparr>isLoading = False, hasHistory = False\<rparr>, TextareaChange (js ''hi'')),
      (\<lparr>isLoading = False, hasHistory = False\<rparr>, FormSubmit),
      (\<lparr>isLoading = True, hasHistory = True\<rparr>, CancelClick)] \<and>
   steps initialState
     [ProviderChange (js ''openai''), ModelChange (js ''gpt-4o''), TextareaChange (js ''hi''),
      FormSubmit, CancelClick] =
     Inr \<lparr>internalInputValue = [], effort = js ''medium'', provider = js ''openai'',
          model = js ''gpt-4o''\<rparr> \<and>
   consistent \<lparr>internalInputValue = [], effort = js ''medium'', provider = js ''openai'',
              model = js ''gpt-4o''\<rparr>"
proof -
  have run: "steps initialState
     [ProviderChange (js ''openai''), ModelChange (js ''gpt-4o''), TextareaChange (js ''hi''),
      FormSubmit, CancelClick] =
     Inr \<lparr>internalInputValue = [], effort = js ''medium'', provider = js ''openai'',
          model = js ''gpt-4o''\<rparr>"
    by (simp add: step_def handleProviderChange_def get_modelOptions_def element0_def
        handleInternalSubmit_def trim_def isWhiteSpace_def white_space_def returns_def
        commit_def initialState_def modelOptions_def js_def)
  have off: "all_offered initialState
     [(\<lparr>isLoading = False, hasHistory = False\<rparr>, ProviderChange (js ''openai'')),
      (\<lparr>isLoading = False, hasHistory = False\<rparr>, ModelChange (js ''gpt-4o'')),
      (\<lparr>isLoading = False, hasHistory = False\<rparr>, TextareaChange (js ''hi'')),
      (\<lparr>isLoading = False, hasHistory = False\<rparr>, FormSubmit),
      (\<lparr>isLoading = True, hasHistory = True\<rparr>, CancelClick)]"
    by (simp add: step_def handleProviderChange_def get_modelOptions_def element0_def
        handleInternalSubmit_def trim_def isWhiteSpace_def white_space_def returns_def
        commit_def initialState_def modelOptions_def js_def provider_items_def model_ids_def
        primary_control_def isSubmitDisabled_def)
  from offered_sessions_consistent [OF off] run off show ?thesis
    by simp
qed

text \<open>The model select's handler is the bare setter: fired with an id of another
  provider it leaves a model that is not listed under the current provider.\<close>

theorem selectModel_arbitrary_inconsistent:
  "steps initialState [ModelChange (js ''gpt-4o'')] = Inr (initialState\<lparr>model := js ''gpt-4o''\<rparr>) \<and>
   \<not> consistent (initialState\<lparr>model := js ''gpt-4o''\<rparr>)"
  by (simp add: step_def returns_def commit_def consistent_def initialState_def
      model_ids_def modelOptions_def js_def)

subsection \<open>Submitting\<close>

text \<open>
  Claim C3. When the trimmed draft is not empty, the submit handler calls \<^verbatim>\<open>onSubmit\<close>
  exactly once, with the draft as it stands (not trimmed) and the current effort,
  provider and model, then sets the draft to the empty string; it does not throw, and
  the draft of the state after the run is empty.
\<close>

theorem submit_passes_draft_as_typed:
  assumes "trim (internalInputValue st) \<noteq> []"
  shows "handleInternalSubmit st e =
           returns ((case e of Some _ \<Rightarrow> [PreventDefault] | None \<Rightarrow> []) @
                    [OnSubmit (internalInputValue st) (effort st) (provider st) (model st),
                     SetInternalInputValue []]) \<and>
         onSubmit_calls (handleInternalSubmit st e) =
           [OnSubmit (internalInputValue st) (effort st) (provider st) (model st)] \<and>
         internalInputValue (commit st (trace (handleInternalSubmit st e))) = []"
proof -
  note run = submit_nonempty [OF assms, of e]
  then have calls: "onSubmit_calls (handleInternalSubmit st e) =
      [OnSubmit (internalInputValue st) (effort st) (provider st) (model st)]"
    by (cases e) (simp_all add: onSubmit_calls_def returns_def)
  have "internalInputValue (commit st (trace (handleInternalSubmit st e))) = []"
    using assms by (simp add: commit_submit_nonempty)
  with run calls show ?thesis
    by blast
qed

text \<open>The draft \<^verbatim>\<open>"  hello  "\<close> is handed over with its blanks.\<close>

theorem submit_passes_draft_as_typed_witness:
  "trim (internalInputValue (initialState\<lparr>internalInputValue := js ''  hello  ''\<rparr>)) \<noteq> [] \<and>
   onSubmit_calls (handleInternalSubmit (initialState\<lparr>internalInputValue := js ''  hello  ''\<rparr>) None) =
     [OnSubmit (js ''  hello  '') (js ''medium'') (js ''gemini'')
        (js ''gemini-2.5-flash-preview-04-17'')] \<and>
   internalInputValue
     (commit (initialState\<lparr>internalInputValue := js ''  hello  ''\<rparr>)
        (trace (handleInternalSubmit (initialState\<lparr>internalInputValue := js ''  hello  ''\<rparr>) None))) = []"
proof -
  have h: "trim (internalInputValue (initialState\<lparr>internalInputValue := js ''  hello  ''\<rparr>)) \<noteq> []"
    by (simp add: trim_examples) (simp add: js_def)
  have i: "internalInputValue (initialState\<lparr>internalInputValue := js ''  hello  ''\<rparr>) = js ''  hello  ''"
      "effort (initialState\<lparr>internalInputValue := js ''  hello  ''\<rparr>) = js ''medium''"
      "provider (initialState\<lparr>internalInputValue := js ''  hello  ''\<rparr>) = js ''gemini''"
      "model (initialState\<lparr>internalInputValue := js ''  hello  ''\<rparr>) = js ''gemini-2.5-flash-preview-04-17''"
    by (simp_all add: initialState_def)
  note t = submit_passes_draft_as_typed [OF h, of None]
  have c1: "onSubmit_calls (handleInternalSubmit (initialState\<lparr>internalInputValue := js ''  hello  ''\<rparr>) None) =
       [OnSubmit (js ''  hello  '') (js ''medium'') (js ''gemini'')
          (js ''gemini-2.5-flash-preview-04-17'')]"
    using t [THEN conjunct2, THEN conjunct1] by (simp only: i)
  have c2: "internalInputValue
     (commit (initialState\<lparr>internalInputValue := js ''  hello  ''\<rparr>)
        (trace (handleInternalSubmit (initialState\<lparr>internalInputValue := js ''  hello  ''\<rparr>) None))) = []"
    by (rule t [THEN conjunct2, THEN conjunct2])
  from h c1 c2 show ?thesis
    by blast
qed

text \<open>With the draft \<^verbatim>\<open>"  hello  "\<close> the one call of \<^verbatim>\<open>onSubmit\<close> is not the call with
  the trimmed text \<^verbatim>\<open>"hello"\<close>.\<close>

theorem submit_does_not_trim:
  "trim (js ''  hello  '') = js ''hello'' \<and>
   onSubmit_calls (handleInternalSubmit (initialState\<lparr>internalInputValue := js ''  hello  ''\<rparr>) None) \<noteq>
     [OnSubmit (js ''hello'') (js ''medium'') (js ''gemini'')
        (js ''gemini-2.5-flash-preview-04-17'')] \<and>
   OnSubmit (js ''hello'') (js ''medium'') (js ''gemini'') (js ''gemini-2.5-flash-preview-04-17'')
     \<notin> set (trace (handleInternalSubmit (initialState\<lparr>internalInputValue := js ''  hello  ''\<rparr>) None))"
  by (simp add: trim_examples)
     (simp add: handleInternalSubmit_def onSubmit_calls_def returns_def initialState_def
        trim_def isWhiteSpace_def white_space_def js_def)

text \<open>
  Claim C4. When the trimmed draft is empty, submitting does nothing: the handler makes
  no call of \<^verbatim>\<open>onSubmit\<close>, calls no setter, throws no error, and the whole state
  (the draft included) is as before, both through the form and through the keyboard.
\<close>

theorem submit_blank_is_noop:
  assumes "trim (internalInputValue st) = []"
  shows "onSubmit_calls (handleInternalSubmit st e) = [] \<and>
         raised (handleInternalSubmit st e) = None \<and>
         commit st (trace (handleInternalSubmit st e)) = st \<and>
         step st FormSubmit = Inr st \<and>
         onSubmit_calls (handleInternalKeyDown st k) = [] \<and>
         step st (TextareaKeyDown k) = Inr st"
proof -
  have calls: "onSubmit_calls (handleInternalSubmit st e') = []" for e'
    using assms by (cases e') (simp_all add: submit_empty onSubmit_calls_def returns_def)
  have "onSubmit_calls (handleInternalKeyDown st k) = []"
  proof (cases "key k = js ''Enter'' \<and> \<not> shiftKey k")
    case True
    then show ?thesis
      by (simp add: keydown_enter calls)
  next
    case False
    then show ?thesis
      by (simp add: keydown_other onSubmit_calls_def returns_def)
  qed
  with calls assms show ?thesis
    by (simp add: submit_never_throws commit_submit_empty step_submit step_keydown)
qed

text \<open>The drafts \<^verbatim>\<open>""\<close>, \<^verbatim>\<open>" "\<close> and line feed followed by tab.\<close>

theorem submit_blank_is_noop_witness:
  "trim (internalInputValue (initialState\<lparr>internalInputValue := [0x000A, 0x0009]\<rparr>)) = [] \<and>
   step (initialState\<lparr>internalInputValue := [0x000A, 0x0009]\<rparr>) FormSubmit =
     Inr (initialState\<lparr>internalInputValue := [0x000A, 0x0009]\<rparr>) \<and>
   onSubmit_calls (handleInternalSubmit (initialState\<lparr>internalInputValue := [0x000A, 0x0009]\<rparr>) None) = [] \<and>
   trim (internalInputValue (initialState\<lparr>internalInputValue := js '' ''\<rparr>)) = [] \<and>
   onSubmit_calls (handleInternalSubmit (initialState\<lparr>internalInputValue := js '' ''\<rparr>) None) = [] \<and>
   trim (internalInputValue initialState) = [] \<and>
   onSubmit_calls (handleInternalSubmit initialState None) = []"
proof -
  have a: "trim (internalInputValue (initialState\<lparr>internalInputValue := [0x000A, 0x0009]\<rparr>)) = []"
    by (simp add: trim_examples)
  have b: "trim (internalInputValue (initialState\<lparr>internalInputValue := js '' ''\<rparr>)) = []"
    by (simp add: trim_examples)
  have c: "trim (internalInputValue initialState) = []"
    by (simp add: initialState_def trim_examples)
  from submit_blank_is_noop [OF a, of None] submit_blank_is_noop [OF b, of None]
       submit_blank_is_noop [OF c, of None] a b c
  show ?thesis
    by simp
qed

text \<open>
  Claim C9. When the trimmed draft is not empty, a submission changes the draft only:
  the state after it is the state before with the draft set to the empty string, so
  effort, provider and model are as before.
\<close>

theorem submit_frame:
  assumes "trim (internalInputValue st) \<noteq> []"
  shows "commit st (trace (handleInternalSubmit st e)) = st\<lparr>internalInputValue := []\<rparr> \<and>
         step st FormSubmit = Inr (st\<lparr>internalInputValue := []\<rparr>) \<and>
         effort (commit st (trace (handleInternalSubmit st e))) = effort st \<and>
         provider (commit st (trace (handleInternalSubmit st e))) = provider st \<and>
         model (commit st (trace (handleInternalSubmit st e))) = model st"
  using assms by (simp add: commit_submit_nonempty step_submit)

theorem submit_frame_witness:
  "trim (internalInputValue
      \<lparr>internalInputValue = js ''why is the sky blue'', effort = js ''high'',
       provider = js ''qwen'', model = js ''qwen-max''\<rparr>) \<noteq> [] \<and>
   step \<lparr>internalInputValue = js ''why is the sky blue'', effort = js ''high'',
         provider = js ''qwen'', model = js ''qwen-max''\<rparr> FormSubmit =
     Inr \<lparr>internalInputValue = [], effort = js ''high'', provider = js ''qwen'',
          model = js ''qwen-max''\<rparr>"
proof -
  have h: "trim (internalInputValue
      \<lparr>internalInputValue = js ''why is the sky blue'', effort = js ''high'',
       provider = js ''qwen'', model = js ''qwen-max''\<rparr>) \<noteq> []"
    by (simp add: trim_def isWhiteSpace_def white_space_def js_def)
  from submit_frame [OF h, of None] h show ?thesis
    by simp
qed

subsection \<open>The keyboard path\<close>

text \<open>
  Claim C6. For an Enter key event on the text area: without Shift (whatever the other
  modifier keys) the effect is that of the submit handler called without an event,
  after one \<^verbatim>\<open>preventDefault\<close> on the key event: the same calls of \<^verbatim>\<open>onSubmit\<close>, the
  same error status and the same state afterwards as a submission, and no line break
  is inserted. With Shift held nothing is submitted and no \<^verbatim>\<open>preventDefault\<close> is
  called; the key press leaves the draft with a line feed inserted at the caret and
  everything else as it was.
\<close>

theorem enter_key_submits_unless_shift:
  assumes "key e = js ''Enter''"
  shows "(\<not> shiftKey e \<longrightarrow>
            trace (handleInternalKeyDown st e) =
              PreventDefault # trace (handleInternalSubmit st None) \<and>
            raised (handleInternalKeyDown st e) = raised (handleInternalSubmit st None) \<and>
            onSubmit_calls (handleInternalKeyDown st e) =
              onSubmit_calls (handleInternalSubmit st e') \<and>
            commit st (trace (handleInternalKeyDown st e)) =
              commit st (trace (handleInternalSubmit st e')) \<and>
            step st (TextareaKeyDown e) = step st FormSubmit \<and>
            press_key st e caret = step st FormSubmit) \<and>
         (shiftKey e \<longrightarrow>
            handleInternalKeyDown st e = returns [] \<and>
            onSubmit_calls (handleInternalKeyDown st e) = [] \<and>
            press_key st e caret =
              Inr (st\<lparr>internalInputValue :=
                         take caret (internalInputValue st) @ [0x000A] @
                         drop caret (internalInputValue st)\<rparr>))"
proof (cases "shiftKey e")
  case False
  note run = keydown_enter_run [OF assms False, of st]
  from run have calls: "onSubmit_calls (handleInternalKeyDown st e) =
      onSubmit_calls (handleInternalSubmit st e')"
    by (simp add: onSubmit_calls_def submit_calls [unfolded onSubmit_calls_def])
  from run have "commit st (trace (handleInternalKeyDown st e)) =
      commit st (trace (handleInternalSubmit st None))"
    by (simp add: commit_def)
  then have state: "commit st (trace (handleInternalKeyDown st e)) =
      commit st (trace (handleInternalSubmit st e'))"
    by (simp add: commit_submit)
  from assms False have "step st (TextareaKeyDown e) = step st FormSubmit"
    by (simp add: step_keydown)
  with run calls state press_key_prevented [OF assms False, of st caret] False
  show ?thesis
    by blast
next
  case True
  with assms have run: "handleInternalKeyDown st e = returns []"
    by (simp add: keydown_other)
  then have "onSubmit_calls (handleInternalKeyDown st e) = []"
    by (simp add: onSubmit_calls_def returns_def)
  with run press_key_shift_enter [OF assms True, of st caret] True
  show ?thesis
    by blast
qed

text \<open>Bare Enter and Shift+Enter on the draft \<^verbatim>\<open>"hello"\<close>, the caret at its end: the
  first submits and clears the draft, the second leaves \<^verbatim>\<open>"hello"\<close> followed by a
  line feed.\<close>

theorem enter_key_submits_unless_shift_witness:
  "key \<lparr>key = js ''Enter'', shiftKey = False, ctrlKey = False, altKey = False, metaKey = False\<rparr>
     = js ''Enter'' \<and>
   \<not> shiftKey \<lparr>key = js ''Enter'', shiftKey = False, ctrlKey = False, altKey = False, metaKey = False\<rparr> \<and>
   press_key (initialState\<lparr>internalInputValue := js ''hello''\<rparr>)
     \<lparr>key = js ''Enter'', shiftKey = False, ctrlKey = False, altKey = False, metaKey = False\<rparr> 5 =
     Inr (initialState\<lparr>internalInputValue := []\<rparr>) \<and>
   onSubmit_calls
     (handleInternalKeyDown (initialState\<lparr>internalInputValue := js ''hello''\<rparr>)
        \<lparr>key = js ''Enter'', shiftKey = False, ctrlKey = False, altKey = False, metaKey = False\<rparr>) =
     onSubmit_calls (handleInternalSubmit (initialState\<lparr>internalInputValue := js ''hello''\<rparr>) None) \<and>
   key \<lparr>key = js ''Enter'', shiftKey = True, ctrlKey = False, altKey = False, metaKey = False\<rparr>
     = js ''Enter'' \<and>
   shiftKey \<lparr>key = js ''Enter'', shiftKey = True, ctrlKey = False, altKey = False, metaKey = False\<rparr> \<and>
   onSubmit_calls
     (handleInternalKeyDown (initialState\<lparr>internalInputValue := js ''hello''\<rparr>)
        \<lparr>key = js ''Enter'', shiftKey = True, ctrlKey = False, altKey = False, metaKey = False\<rparr>) = [] \<and>
   press_key (initialState\<lparr>internalInputValue := js ''hello''\<rparr>)
     \<lparr>key = js ''Enter'', shiftKey = True, ctrlKey = False, altKey = False, metaKey = False\<rparr> 5 =
     Inr (initialState\<lparr>internalInputValue := js ''hello'' @ [0x000A]\<rparr>)"
proof -
  have a: "key \<lparr>key = js ''Enter'', shiftKey = False, ctrlKey = False, altKey = False,
                 metaKey = False\<rparr> = js ''Enter''"
    by simp
  have b: "key \<lparr>key = js ''Enter'', shiftKey = True, ctrlKey = False, altKey = False,
                 metaKey = False\<rparr> = js ''Enter''"
    by simp
  have s: "step (initialState\<lparr>internalInputValue := js ''hello''\<rparr>) FormSubmit =
      Inr (initialState\<lparr>internalInputValue := []\<rparr>)"
    by (simp add: step_submit trim_def isWhiteSpace_def white_space_def js_def)
  have l: "length (js ''hello'') = 5"
    by (simp add: js_def)
  from enter_key_submits_unless_shift
         [OF a, of "initialState\<lparr>internalInputValue := js ''hello''\<rparr>" None 5]
       enter_key_submits_unless_shift
         [OF b, of "initialState\<lparr>internalInputValue := js ''hello''\<rparr>" None 5] s l
  show ?thesis
    by (simp add: onSubmit_calls_def returns_def)
qed

text \<open>Enter with Ctrl held (and no Shift) submits the draft and clears it; no line
  break is left in it.\<close>

theorem ctrl_enter_submits:
  "onSubmit_calls
     (handleInternalKeyDown (initialState\<lparr>internalInputValue := js ''hello''\<rparr>)
        \<lparr>key = js ''Enter'', shiftKey = False, ctrlKey = True, altKey = False, metaKey = False\<rparr>) =
     [OnSubmit (js ''hello'') (js ''medium'') (js ''gemini'')
        (js ''gemini-2.5-flash-preview-04-17'')] \<and>
   step (initialState\<lparr>internalInputValue := js ''hello''\<rparr>)
     (TextareaKeyDown \<lparr>key = js ''Enter'', shiftKey = False, ctrlKey = True, altKey = False,
                       metaKey = False\<rparr>) =
     Inr (initialState\<lparr>internalInputValue := []\<rparr>) \<and>
   press_key (initialState\<lparr>internalInputValue := js ''hello''\<rparr>)
     \<lparr>key = js ''Enter'', shiftKey = False, ctrlKey = True, altKey = False, metaKey = False\<rparr> 5 =
     Inr (initialState\<lparr>internalInputValue := []\<rparr>)"
  by (simp add: press_key_def step_def handleInternalKeyDown_def handleInternalSubmit_def
      onSubmit_calls_def returns_def commit_def initialState_def trim_def isWhiteSpace_def
      white_space_def js_def)
text \<open>
  Claim C5. While a request is loading, with the draft \<^verbatim>\<open>"hello"\<close>: the submit flag is
  disabled and the cancel button stands in place of the submit button, yet Enter in
  the text area calls \<^verbatim>\<open>onSubmit\<close> once and clears the draft, since neither the key
  handler nor the submit handler reads \<^verbatim>\<open>isLoading\<close>.
\<close>

theorem enter_submits_while_loading:
  "isSubmitDisabled \<lparr>isLoading = True, hasHistory = False\<rparr>
     (initialState\<lparr>internalInputValue := js ''hello''\<rparr>) \<and>
   primary_control \<lparr>isLoading = True, hasHistory = False\<rparr>
     (initialState\<lparr>internalInputValue := js ''hello''\<rparr>) = CancelButton \<and>
   offered \<lparr>isLoading = True, hasHistory = False\<rparr>
     (initialState\<lparr>internalInputValue := js ''hello''\<rparr>)
     (TextareaKeyDown \<lparr>key = js ''Enter'', shiftKey = False, ctrlKey = False, altKey = False,
                       metaKey = False\<rparr>) \<and>
   onSubmit_calls
     (dispatch (initialState\<lparr>internalInputValue := js ''hello''\<rparr>)
        (TextareaKeyDown \<lparr>key = js ''Enter'', shiftKey = False, ctrlKey = False, altKey = False,
                          metaKey = False\<rparr>)) =
     [OnSubmit (js ''hello'') (js ''medium'') (js ''gemini'')
        (js ''gemini-2.5-flash-preview-04-17'')] \<and>
   step (initialState\<lparr>internalInputValue := js ''hello''\<rparr>)
     (TextareaKeyDown \<lparr>key = js ''Enter'', shiftKey = False, ctrlKey = False, altKey = False,
                       metaKey = False\<rparr>) =
     Inr (initialState\<lparr>internalInputValue := []\<rparr>)"
  by (simp add: isSubmitDisabled_def primary_control_def step_def handleInternalKeyDown_def
      handleInternalSubmit_def onSubmit_calls_def returns_def commit_def initialState_def
      trim_def isWhiteSpace_def white_space_def js_def)

subsection \<open>The submit flag\<close>

text \<open>
  Claim C8. The flag \<^verbatim>\<open>isSubmitDisabled\<close> is the negation of \<open>canSubmit\<close> for every draft
  and every value of \<^verbatim>\<open>isLoading\<close>, and the submit button, when it is rendered, carries
  that negation as its \<^verbatim>\<open>disabled\<close> attribute (while loading the cancel button is
  rendered in its place).
\<close>

theorem isSubmitDisabled_is_not_canSubmit:
  "isSubmitDisabled props st = (\<not> canSubmit props st) \<and>
   primary_control props st =
     (if isLoading props then CancelButton else SubmitButton (\<not> canSubmit props st))"
  by (simp add: isSubmitDisabled_def canSubmit_def primary_control_def)

end
